theory Spec2Isabelle
  imports Main "HOL-Library.Word"
begin

section \<open>The memory pool of libmicrohttpd (memorypool.c)\<close>

text \<open>
  The pool is a bump allocator over one buffer.  The model follows the C source on an
  LP64 target: \<open>size_t\<close> and pointers are 64-bit words, so every \<open>+\<close>, \<open>-\<close> and
  \<open>*\<close> below wraps around as the unsigned C arithmetic does, and \<open>sizeof(void*)\<close> is 8.
  Memory is one store from addresses to bytes; the pool's buffer is the part of the store
  that starts at \<open>memory\<close>.
\<close>

subsection \<open>Machine types and the store\<close>

type_synonym size_t = "64 word"
type_synonym ptr = "64 word"
type_synonym byte = "8 word"
type_synonym heap = "ptr \<Rightarrow> byte"

definition NULL :: ptr where
  "NULL = 0"

text \<open>\<open>#define MAP_FAILED ((void* )-1)\<close>\<close>

definition MAP_FAILED :: ptr where
  "MAP_FAILED = - 1"

text \<open>
  The three libc routines the pool calls.  \<open>memset h s c n\<close> is the store after
  \<open>memset (s, c, n)\<close>: the \<open>n\<close> addresses \<open>s, s + 1, \<dots>\<close> hold \<open>c\<close>.  An address \<open>a\<close>
  is one of them exactly when the word \<open>a - s\<close> is below \<open>n\<close>.  \<open>memmove\<close> reads the
  source from the store before the call, which is its overlap-tolerant meaning; \<open>memcpy\<close>
  is given the same meaning (C leaves it undefined when the two ranges overlap).
\<close>

definition memset :: "heap \<Rightarrow> ptr \<Rightarrow> byte \<Rightarrow> size_t \<Rightarrow> heap" where
  "memset h s c n = (\<lambda>a. if a - s < n then c else h a)"

definition memmove :: "heap \<Rightarrow> ptr \<Rightarrow> ptr \<Rightarrow> size_t \<Rightarrow> heap" where
  "memmove h dst src n = (\<lambda>a. if a - dst < n then h (src + (a - dst)) else h a)"

definition memcpy :: "heap \<Rightarrow> ptr \<Rightarrow> ptr \<Rightarrow> size_t \<Rightarrow> heap" where
  "memcpy h dst src n = (\<lambda>a. if a - dst < n then h (src + (a - dst)) else h a)"

text \<open>A caller writing the bytes \<open>bs\<close> at \<open>p\<close>, and reading \<open>n\<close> bytes back.\<close>

definition write_bytes :: "heap \<Rightarrow> ptr \<Rightarrow> byte list \<Rightarrow> heap" where
  "write_bytes h p bs = (\<lambda>a. if unat (a - p) < length bs then bs ! unat (a - p) else h a)"

definition read_bytes :: "heap \<Rightarrow> ptr \<Rightarrow> nat \<Rightarrow> byte list" where
  "read_bytes h p n = map (\<lambda>i. h (p + of_nat i)) [0..<n]"

subsection \<open>Alignment\<close>

text \<open>\<open>#define ALIGN_SIZE (2 * sizeof(void* ))\<close>\<close>

definition ALIGN_SIZE :: size_t where
  "ALIGN_SIZE = 2 * 8"

text \<open>\<open>#define ROUND_TO_ALIGN(n) (((n)+(ALIGN_SIZE-1)) / (ALIGN_SIZE) * (ALIGN_SIZE))\<close>\<close>

definition ROUND_TO_ALIGN :: "size_t \<Rightarrow> size_t" where
  "ROUND_TO_ALIGN n = (n + (ALIGN_SIZE - 1)) div ALIGN_SIZE * ALIGN_SIZE"

subsection \<open>The pool\<close>

text \<open>
  \<open>struct MemoryPool\<close>.  The fields \<open>size\<close> and \<open>end\<close> are called \<open>pool_size\<close> and
  \<open>pool_end\<close> here.

  The \<open>mhd_assert\<close> lines at the head of each function are checks on the caller that a
  release build leaves out; they are not branches of the functions below.  Where a property
  depends on one of them, it is a hypothesis of the theorem.  \<open>MHD_pool_destroy\<close> only
  releases the buffer and the handle and has no part in what follows.
\<close>

record MemoryPool =
  memory :: ptr
  pool_size :: size_t
  pos :: size_t
  pool_end :: size_t
  is_mmap :: bool

text \<open>
  \<open>MHD_pool_create\<close>, on a target with \<open>MAP_ANONYMOUS\<close>.  What the allocators answer is
  an input: \<open>pool_ok\<close> says whether \<open>malloc\<close> of the handle succeeded, \<open>mmap_ret\<close> is what
  \<open>mmap\<close> returns when it is called and \<open>malloc_ret\<close> what \<open>malloc (max)\<close> returns.  The
  result \<open>None\<close> is the \<open>NULL\<close> handle.
\<close>

definition MHD_pool_create :: "bool \<Rightarrow> ptr \<Rightarrow> ptr \<Rightarrow> size_t \<Rightarrow> MemoryPool option" where
  "MHD_pool_create pool_ok mmap_ret malloc_ret max0 =
     (let max = ROUND_TO_ALIGN max0 in
      if \<not> pool_ok then None
      else
        let mem = (if max \<le> 32 * 1024 then MAP_FAILED else mmap_ret) in
        if mem = MAP_FAILED then
          (if malloc_ret = NULL then None
           else Some \<lparr>memory = malloc_ret, pool_size = max, pos = 0, pool_end = max,
                       is_mmap = False\<rparr>)
        else Some \<lparr>memory = mem, pool_size = max, pos = 0, pool_end = max, is_mmap = True\<rparr>)"

definition MHD_pool_get_free :: "MemoryPool \<Rightarrow> size_t" where
  "MHD_pool_get_free pool = pool_end pool - pos pool"

text \<open>\<open>MHD_pool_allocate\<close> returns the block and the updated pool; it writes no memory.\<close>

definition MHD_pool_allocate :: "MemoryPool \<Rightarrow> size_t \<Rightarrow> bool \<Rightarrow> ptr \<times> MemoryPool" where
  "MHD_pool_allocate pool sz from_end =
     (let asize = ROUND_TO_ALIGN sz in
      if 0 = asize \<and> 0 \<noteq> sz then (NULL, pool)
      else if pos pool + asize > pool_end pool \<or> pos pool + asize < pos pool then (NULL, pool)
      else if from_end then
        (memory pool + (pool_end pool - asize), pool\<lparr>pool_end := pool_end pool - asize\<rparr>)
      else
        (memory pool + pos pool, pool\<lparr>pos := pos pool + asize\<rparr>))"

text \<open>\<open>MHD_pool_reallocate\<close> returns the block, the updated pool and the updated store.\<close>

definition MHD_pool_reallocate ::
  "MemoryPool \<Rightarrow> heap \<Rightarrow> ptr \<Rightarrow> size_t \<Rightarrow> size_t \<Rightarrow> ptr \<times> MemoryPool \<times> heap" where
  "MHD_pool_reallocate pool h old old_size new_size =
     (if new_size + 2 * ALIGN_SIZE < new_size then (NULL, pool, h)
      else
        let old_offset = old - memory pool in
        if 0 \<noteq> old_size \<and> pos pool = ROUND_TO_ALIGN (old_offset + old_size) then
          (let new_apos = ROUND_TO_ALIGN (old_offset + new_size) in
           if new_apos > pool_end pool then (NULL, pool, h)
           else
             (old, pool\<lparr>pos := new_apos\<rparr>,
              if old_size > new_size then memset h (old + new_size) 0 (old_size - new_size)
              else h))
        else
          let asize = ROUND_TO_ALIGN new_size in
          if asize > pool_end pool - pos pool then (NULL, pool, h)
          else
            let new_blc = memory pool + pos pool in
            (new_blc, pool\<lparr>pos := pos pool + asize\<rparr>,
             if 0 \<noteq> old_size then memset (memcpy h new_blc old old_size) old 0 old_size
             else h))"

text \<open>\<open>MHD_pool_reset\<close> returns the new address of \<open>keep\<close>, the pool and the store.\<close>

definition MHD_pool_reset ::
  "MemoryPool \<Rightarrow> heap \<Rightarrow> ptr \<Rightarrow> size_t \<Rightarrow> size_t \<Rightarrow> ptr \<times> MemoryPool \<times> heap" where
  "MHD_pool_reset pool h keep copy_bytes new_size =
     (let relocate = (NULL \<noteq> keep \<and> keep \<noteq> memory pool);
          h1 = (if relocate \<and> 0 \<noteq> copy_bytes then memmove h (memory pool) keep copy_bytes
                else h);
          keep1 = (if relocate then memory pool else keep);
          pool1 = pool\<lparr>pool_end := pool_size pool\<rparr>;
          h2 = (if pool_size pool > copy_bytes
                then memset h1 (memory pool + copy_bytes) 0 (pool_size pool - copy_bytes)
                else h1);
          pool2 = (if NULL \<noteq> keep1 then pool1\<lparr>pos := ROUND_TO_ALIGN new_size\<rparr> else pool1)
      in (keep1, pool2, h2))"

subsection \<open>Invariants\<close>

text \<open>A size or offset is aligned when it is a multiple of \<open>ALIGN_SIZE\<close>.\<close>

definition aligned :: "size_t \<Rightarrow> bool" where
  "aligned n = (unat ALIGN_SIZE dvd unat n)"

text \<open>
  The arena invariant: \<open>pos \<le> end \<le> size\<close>, all three aligned.  Its first part is what
  every operation asserts on entry (\<open>mhd_assert (pool->end >= pool->pos)\<close>).
\<close>

definition pool_inv :: "MemoryPool \<Rightarrow> bool" where
  "pool_inv pool =
     (pos pool \<le> pool_end pool \<and> pool_end pool \<le> pool_size pool \<and>
      aligned (pos pool) \<and> aligned (pool_end pool) \<and> aligned (pool_size pool))"

text \<open>
  The buffer is one object of the C program: it does not start at \<open>NULL\<close>, it does not
  reach the end of the address space, and it is no larger than \<open>PTRDIFF_MAX\<close>, so that the
  pointer difference \<open>(uint8_t* )old - pool->memory\<close> is defined.
\<close>

definition buffer_ok :: "MemoryPool \<Rightarrow> bool" where
  "buffer_ok pool =
     (memory pool \<noteq> NULL \<and> unat (memory pool) + unat (pool_size pool) < 2 ^ 64 \<and>
      unat (pool_size pool) < 2 ^ 63)"

subsection \<open>Concrete pools for the scenarios\<close>

text \<open>A fresh pool of 1024 bytes whose buffer \<open>malloc\<close> placed at address 4096.\<close>

definition pool0 :: MemoryPool where
  "pool0 = \<lparr>memory = 4096, pool_size = 1024, pos = 0, pool_end = 1024, is_mmap = False\<rparr>"

definition heap0 :: heap where
  "heap0 = (\<lambda>a. 0)"

text \<open>The store in which a caller has written \<open>xyz\<close> at offset 112 of that buffer.\<close>

definition heap6 :: heap where
  "heap6 = write_bytes heap0 4208 (map of_char ''xyz'')"

text \<open>
  The pool after \<open>p = MHD_pool_allocate (pool, 100, false)\<close>, and the store after the
  caller has written \<open>abcdefghij\<close> at \<open>p\<close>.
\<close>

definition pool7 :: MemoryPool where
  "pool7 = snd (MHD_pool_allocate pool0 100 False)"

definition heap7 :: heap where
  "heap7 =
     write_bytes heap0 (fst (MHD_pool_allocate pool0 100 False)) (map of_char ''abcdefghij'')"

text \<open>The pool after a second allocation, \<open>q = MHD_pool_allocate (pool, 50, false)\<close>.\<close>

definition pool5 :: MemoryPool where
  "pool5 = snd (MHD_pool_allocate pool7 50 False)"

text \<open>
  A pool in which a block of 800 bytes is allocated from the end first and filled with the
  byte 170 by its owner; then \<open>p9\<close> of 100 bytes is allocated from the head and filled with
  the byte 85, and \<open>q9\<close> of 50 bytes is allocated from the head after it.
\<close>

definition tail9 :: ptr where
  "tail9 = fst (MHD_pool_allocate pool0 800 True)"

definition pool9a :: MemoryPool where
  "pool9a = snd (MHD_pool_allocate pool0 800 True)"

definition heap9a :: heap where
  "heap9a = memset heap0 tail9 170 800"

definition p9 :: ptr where
  "p9 = fst (MHD_pool_allocate pool9a 100 False)"

definition pool9b :: MemoryPool where
  "pool9b = snd (MHD_pool_allocate pool9a 100 False)"

definition heap9b :: heap where
  "heap9b = memset heap9a p9 85 100"

definition q9 :: ptr where
  "q9 = fst (MHD_pool_allocate pool9b 50 False)"

definition pool9c :: MemoryPool where
  "pool9c = snd (MHD_pool_allocate pool9b 50 False)"

section \<open>Arithmetic of sizes\<close>

lemma unat_ROUND: "unat (ROUND_TO_ALIGN n) = unat (n + 15) div 16 * 16"
proof -
  have "unat (n + 15) div 16 * 16 \<le> unat (n + 15)" by simp
  also have "\<dots> < 2 ^ 64" using unsigned_less [of "n + 15"] by simp
  finally have "unat (n + 15) div 16 * 16 < 2 ^ 64" .
  then show ?thesis
    by (simp add: ROUND_TO_ALIGN_def ALIGN_SIZE_def unat_word_ariths unat_div)
qed

lemma add15: "unat n + 15 < 2 ^ 64 \<Longrightarrow> unat (n + 15) = unat n + 15" for n :: size_t
  by (simp add: unat_word_ariths)

lemma add15_wrap: "2 ^ 64 \<le> unat n + 15 \<Longrightarrow> unat (n + 15) < 15" for n :: size_t
proof -
  assume a: "2 ^ 64 \<le> unat n + 15"
  have b: "unat n < 2 ^ 64" using unsigned_less [of n] by simp
  have "unat (n + 15) = (unat n + 15) mod 2 ^ 64" by (simp add: unat_word_ariths)
  also have "\<dots> = unat n + 15 - 2 ^ 64" using a b by (simp add: le_mod_geq)
  finally show ?thesis using b by simp
qed

lemma round_ge: "m \<le> (m + 15) div 16 * 16" for m :: nat
  by presburger

text \<open>The rounding wraps to 0 exactly for the last 15 sizes.\<close>

lemma ROUND_zero: "(ROUND_TO_ALIGN n = 0 \<and> n \<noteq> 0) = (2 ^ 64 \<le> unat n + 15)"
proof (cases "2 ^ 64 \<le> unat n + 15")
  case True
  then have "unat (n + 15) < 15" by (rule add15_wrap)
  then have "unat (ROUND_TO_ALIGN n) = 0" by (simp add: unat_ROUND)
  then have "ROUND_TO_ALIGN n = 0" by (simp add: unat_eq_0)
  moreover from True have "n \<noteq> 0" by auto
  ultimately show ?thesis using True by simp
next
  case False
  then have "unat (n + 15) = unat n + 15" by (simp add: add15)
  then have r: "unat (ROUND_TO_ALIGN n) = (unat n + 15) div 16 * 16" by (simp add: unat_ROUND)
  have "unat n \<le> (unat n + 15) div 16 * 16" by (rule round_ge)
  with r have "unat n \<le> unat (ROUND_TO_ALIGN n)" by simp
  then have "ROUND_TO_ALIGN n = 0 \<Longrightarrow> n = 0" by (simp add: unat_eq_0)
  with False show ?thesis by auto
qed

lemma ROUND_big:
  assumes "2 ^ 64 \<le> unat n + 32" "unat n + 15 < 2 ^ 64"
  shows "2 ^ 63 \<le> unat (ROUND_TO_ALIGN n)"
proof -
  from assms(2) have "unat (n + 15) = unat n + 15" by (simp add: add15)
  then have "unat (ROUND_TO_ALIGN n) = (unat n + 15) div 16 * 16" by (simp add: unat_ROUND)
  moreover have "unat n \<le> (unat n + 15) div 16 * 16" by (rule round_ge)
  ultimately show ?thesis using assms(1) by simp
qed

text \<open>Where the sum and its rounding do not wrap, the rounding is the exact one.\<close>

lemma ROUND_exact_sum:
  assumes "unat a + unat b + 15 < 2 ^ 64"
  shows "unat (ROUND_TO_ALIGN (a + b)) = (unat a + unat b + 15) div 16 * 16"
proof -
  from assms have "unat a + unat b < 2 ^ 64" by simp
  then have s: "unat (a + b) = unat a + unat b" by (simp add: unat_word_ariths)
  with assms have "unat (a + b) + 15 < 2 ^ 64" by simp
  then have "unat (a + b + 15) = unat (a + b) + 15" by (rule add15)
  with s show ?thesis by (simp add: unat_ROUND)
qed

text \<open>The overflow test of \<open>MHD_pool_reallocate\<close>, read on natural numbers.\<close>

lemma guard_iff: "(n + 2 * ALIGN_SIZE < n) = (2 ^ 64 \<le> unat n + 32)" for n :: size_t
proof -
  have b: "unat n < 2 ^ 64" using unsigned_less [of n] by simp
  have "unat (n + 32) = (unat n + 32) mod 2 ^ 64" by (simp add: unat_word_ariths)
  then have "(unat (n + 32) < unat n) = (2 ^ 64 \<le> unat n + 32)"
    using b by (auto simp add: mod_if)
  then show ?thesis by (simp add: ALIGN_SIZE_def word_less_nat_alt)
qed

text \<open>The two comparisons of \<open>MHD_pool_allocate\<close> together say that the block does not fit.\<close>

lemma cap_iff: "p \<le> e \<Longrightarrow> (p + a > e \<or> p + a < p) = (a > e - p)" for p e a :: size_t
  by unat_arith

lemma aligned_ROUND: "aligned (ROUND_TO_ALIGN n)"
  by (simp add: aligned_def unat_ROUND ALIGN_SIZE_def)

lemma aligned_0: "aligned 0"
  by (simp add: aligned_def)

lemma aligned_add: "aligned a \<Longrightarrow> aligned b \<Longrightarrow> a \<le> a + b \<Longrightarrow> aligned (a + b)"
proof -
  assume a: "aligned a" "aligned b" "a \<le> a + b"
  from a(3) have "unat (a + b) = unat a + unat b" by unat_arith
  with a show ?thesis by (simp add: aligned_def)
qed

lemma aligned_sub: "aligned a \<Longrightarrow> aligned b \<Longrightarrow> b \<le> a \<Longrightarrow> aligned (a - b)"
proof -
  assume a: "aligned a" "aligned b" "b \<le> a"
  from a(3) have "unat (a - b) = unat a - unat b" by unat_arith
  with a show ?thesis by (simp add: aligned_def)
qed

text \<open>Offsets into a range of the store.\<close>

lemma off_below: "i < c \<Longrightarrow> c < s \<Longrightarrow> \<not> (i - c < s - c)" for i c s :: size_t
  by unat_arith

lemma off_within: "c \<le> i \<Longrightarrow> i < s \<Longrightarrow> i - c < s - c" for i c s :: size_t
  by unat_arith

lemma off_none: "\<not> 0 < s \<Longrightarrow> \<not> i < s" for i s :: size_t
  by unat_arith

lemma block_not_NULL:
  assumes "buffer_ok pool" "off \<le> pool_size pool"
  shows "memory pool + off \<noteq> NULL"
proof -
  from assms have lt: "unat (memory pool) + unat off < 2 ^ 64"
    by (simp add: buffer_ok_def word_le_nat_alt)
  then have "unat (memory pool + off) = unat (memory pool) + unat off"
    by (simp add: unat_word_ariths)
  moreover from assms(1) have "unat (memory pool) \<noteq> 0"
    by (simp add: buffer_ok_def NULL_def unat_eq_0)
  ultimately have "unat (memory pool + off) \<noteq> 0" by simp
  then show ?thesis by (simp add: NULL_def unat_eq_0)
qed

section \<open>Creation and the fresh pool\<close>

lemma create_1024:
  assumes "MHD_pool_create ok mm ml 1024 = Some pool"
  shows "pool = \<lparr>memory = ml, pool_size = 1024, pos = 0, pool_end = 1024, is_mmap = False\<rparr>"
  using assms
  by (simp add: MHD_pool_create_def ROUND_TO_ALIGN_def ALIGN_SIZE_def Let_def split: if_splits)

lemma create_1024_memory:
  assumes "MHD_pool_create ok mm ml 1024 = Some pool"
  shows "ml \<noteq> NULL"
  using assms
  by (simp add: MHD_pool_create_def ROUND_TO_ALIGN_def ALIGN_SIZE_def Let_def split: if_splits)

lemma create_pool0: "MHD_pool_create True MAP_FAILED 4096 1024 = Some pool0"
  by (simp add: MHD_pool_create_def ROUND_TO_ALIGN_def ALIGN_SIZE_def Let_def pool0_def
      NULL_def MAP_FAILED_def)

lemma pool0_inv: "pool_inv pool0"
  by (simp add: pool_inv_def pool0_def aligned_def ALIGN_SIZE_def)

lemma pool0_ok: "buffer_ok pool0"
  by (simp add: buffer_ok_def pool0_def NULL_def)

section \<open>The operations keep the arena invariant\<close>

lemma create_inv: "MHD_pool_create ok mm ml mx = Some pool \<Longrightarrow> pool_inv pool"
  by (auto simp add: MHD_pool_create_def Let_def pool_inv_def aligned_ROUND aligned_0
      split: if_splits)

lemma allocate_inv: "pool_inv pool \<Longrightarrow> pool_inv (snd (MHD_pool_allocate pool sz fe))"
proof -
  assume inv: "pool_inv pool"
  let ?a = "ROUND_TO_ALIGN sz"
  show ?thesis
  proof (cases "pos pool + ?a > pool_end pool \<or> pos pool + ?a < pos pool")
    case True
    then show ?thesis using inv by (simp add: MHD_pool_allocate_def Let_def)
  next
    case False
    then have le: "pos pool \<le> pos pool + ?a" "pos pool + ?a \<le> pool_end pool" by unat_arith+
    then have le2: "?a \<le> pool_end pool" "pos pool \<le> pool_end pool - ?a" by unat_arith+
    from inv have "pool_end pool \<le> pool_size pool" by (simp add: pool_inv_def)
    with le2 have le3: "pool_end pool - ?a \<le> pool_size pool" by unat_arith
    show ?thesis using inv le le2 le3
      by (simp add: MHD_pool_allocate_def Let_def pool_inv_def aligned_add aligned_sub
          aligned_ROUND)
  qed
qed

lemma reallocate_inv:
  "pool_inv pool \<Longrightarrow> pool_inv (fst (snd (MHD_pool_reallocate pool h old old_size new_size)))"
proof -
  assume inv: "pool_inv pool"
  let ?a = "ROUND_TO_ALIGN new_size"
  have slow: "\<not> ?a > pool_end pool - pos pool \<Longrightarrow> pool_inv (pool\<lparr>pos := pos pool + ?a\<rparr>)"
  proof -
    assume n: "\<not> ?a > pool_end pool - pos pool"
    from inv have o: "pos pool \<le> pool_end pool" by (simp add: pool_inv_def)
    from n o have le: "pos pool \<le> pos pool + ?a" "pos pool + ?a \<le> pool_end pool"
      by unat_arith+
    with inv show ?thesis by (simp add: pool_inv_def aligned_add aligned_ROUND)
  qed
  have fast: "\<And>n. \<not> ROUND_TO_ALIGN n > pool_end pool \<Longrightarrow> pool_inv (pool\<lparr>pos := ROUND_TO_ALIGN n\<rparr>)"
    using inv by (simp add: pool_inv_def aligned_ROUND)
  show ?thesis using inv slow fast
    by (simp add: MHD_pool_reallocate_def Let_def)
qed

lemma reset_inv:
  "pool_inv pool \<Longrightarrow> keep = NULL \<or> ROUND_TO_ALIGN new_size \<le> pool_size pool \<Longrightarrow>
   pool_inv (fst (snd (MHD_pool_reset pool h keep copy_bytes new_size)))"
  by (auto simp add: MHD_pool_reset_def Let_def pool_inv_def aligned_ROUND)

lemma get_free_le: "pool_inv pool \<Longrightarrow> MHD_pool_get_free pool \<le> pool_size pool"
proof -
  assume "pool_inv pool"
  then have "pos pool \<le> pool_end pool" "pool_end pool \<le> pool_size pool"
    by (simp_all add: pool_inv_def)
  then show ?thesis unfolding MHD_pool_get_free_def by unat_arith
qed

section \<open>Allocation\<close>

lemma allocate_head:
  assumes "pos pool \<le> pool_end pool"
  shows "MHD_pool_allocate pool n False =
     (if (0 = ROUND_TO_ALIGN n \<and> 0 \<noteq> n) \<or> ROUND_TO_ALIGN n > pool_end pool - pos pool
      then (NULL, pool)
      else (memory pool + pos pool, pool\<lparr>pos := pos pool + ROUND_TO_ALIGN n\<rparr>))"
proof (cases "ROUND_TO_ALIGN n > pool_end pool - pos pool")
  case True
  then have "pos pool + ROUND_TO_ALIGN n > pool_end pool \<or> pos pool + ROUND_TO_ALIGN n < pos pool"
    using cap_iff [OF assms] by blast
  with True show ?thesis by (simp add: MHD_pool_allocate_def Let_def)
next
  case False
  then have "\<not> (pos pool + ROUND_TO_ALIGN n > pool_end pool \<or> pos pool + ROUND_TO_ALIGN n < pos pool)"
    using cap_iff [OF assms] by blast
  with False show ?thesis by (simp add: MHD_pool_allocate_def Let_def)
qed

lemma allocate_tail:
  assumes "pos pool \<le> pool_end pool"
  shows "MHD_pool_allocate pool n True =
     (if (0 = ROUND_TO_ALIGN n \<and> 0 \<noteq> n) \<or> ROUND_TO_ALIGN n > pool_end pool - pos pool
      then (NULL, pool)
      else (memory pool + (pool_end pool - ROUND_TO_ALIGN n),
            pool\<lparr>pool_end := pool_end pool - ROUND_TO_ALIGN n\<rparr>))"
proof (cases "ROUND_TO_ALIGN n > pool_end pool - pos pool")
  case True
  then have "pos pool + ROUND_TO_ALIGN n > pool_end pool \<or> pos pool + ROUND_TO_ALIGN n < pos pool"
    using cap_iff [OF assms] by blast
  with True show ?thesis by (simp add: MHD_pool_allocate_def Let_def)
next
  case False
  then have "\<not> (pos pool + ROUND_TO_ALIGN n > pool_end pool \<or> pos pool + ROUND_TO_ALIGN n < pos pool)"
    using cap_iff [OF assms] by blast
  with False show ?thesis by (simp add: MHD_pool_allocate_def Let_def)
qed

lemma reallocate_0:
  "MHD_pool_reallocate pool h old 0 n =
     (if n + 2 * ALIGN_SIZE < n \<or> ROUND_TO_ALIGN n > pool_end pool - pos pool then (NULL, pool, h)
      else (memory pool + pos pool, pool\<lparr>pos := pos pool + ROUND_TO_ALIGN n\<rparr>, h))"
  by (simp add: MHD_pool_reallocate_def Let_def)

text \<open>A block that fits lies inside the buffer, so its address is not \<open>NULL\<close>.\<close>

lemma head_block_not_NULL:
  assumes "buffer_ok pool" "pool_inv pool"
  shows "memory pool + pos pool \<noteq> NULL"
proof -
  from assms(2) have "pos pool \<le> pool_end pool" "pool_end pool \<le> pool_size pool"
    by (simp_all add: pool_inv_def)
  then have "pos pool \<le> pool_size pool" by simp
  with assms(1) show ?thesis by (rule block_not_NULL)
qed

lemma tail_block_not_NULL:
  assumes "buffer_ok pool" "pool_inv pool" "\<not> a > pool_end pool - pos pool"
  shows "memory pool + (pool_end pool - a) \<noteq> NULL"
proof -
  from assms(2) have o: "pos pool \<le> pool_end pool" "pool_end pool \<le> pool_size pool"
    by (simp_all add: pool_inv_def)
  from o(1) assms(3) have "pool_end pool - a \<le> pool_end pool" by unat_arith
  with o(2) have "pool_end pool - a \<le> pool_size pool" by simp
  with assms(1) show ?thesis by (rule block_not_NULL)
qed

section \<open>The pool after one allocation of 100 bytes\<close>

lemma ROUND_100: "ROUND_TO_ALIGN 100 = 112"
  by (simp add: ROUND_TO_ALIGN_def ALIGN_SIZE_def)

lemma pool7_eq:
  "pool7 = \<lparr>memory = 4096, pool_size = 1024, pos = 112, pool_end = 1024, is_mmap = False\<rparr>"
  by (simp add: pool7_def pool0_def MHD_pool_allocate_def Let_def ROUND_100)

lemma pool7_inv: "pool_inv pool7"
  by (simp add: pool7_eq pool_inv_def aligned_def ALIGN_SIZE_def)

lemma pool7_ok: "buffer_ok pool7"
  by (simp add: pool7_eq buffer_ok_def NULL_def)

section \<open>Reset\<close>

text \<open>
  C6.  For a pool with a buffer and a non-null \<open>keep\<close>, \<open>MHD_pool_reset\<close> returns the
  start of the buffer; afterwards the first \<open>copy_bytes\<close> bytes of the buffer are the bytes
  that were at \<open>keep\<close> before the call, \<open>end\<close> is the size of the pool, \<open>pos\<close> is
  \<open>ROUND_TO_ALIGN new_size\<close>, and the bytes of the buffer from offset \<open>copy_bytes\<close> up to
  the size are zero.  The ranges may overlap; that \<open>keep\<close> lies inside the buffer is not
  needed for any of this.
\<close>

theorem reset_relocation:
  assumes "keep \<noteq> NULL" and "memory pool \<noteq> NULL"
  shows "(case MHD_pool_reset pool h keep copy_bytes new_size of (r, pool', h') \<Rightarrow>
          r = memory pool \<and>
          (\<forall>i. i < copy_bytes \<longrightarrow> h' (memory pool + i) = h (keep + i)) \<and>
          pool_end pool' = pool_size pool \<and>
          pos pool' = ROUND_TO_ALIGN new_size \<and>
          (\<forall>i. copy_bytes \<le> i \<and> i < pool_size pool \<longrightarrow> h' (memory pool + i) = 0))"
  using assms
  by (auto simp add: MHD_pool_reset_def Let_def memset_def memmove_def
      off_below off_within off_none)

text \<open>
  The theorem at work: in the fresh pool at 4096, with \<open>xyz\<close> stored at offset 112,
  \<open>MHD_pool_reset (pool, buffer + 112, 3, 50)\<close> moves the \<open>y\<close> to offset 1, sets \<open>pos\<close> to 64
  and clears offset 500.
\<close>

theorem reset_relocation_witness:
  "(4208 :: ptr) \<noteq> NULL \<and> memory pool0 \<noteq> NULL \<and>
   fst (MHD_pool_reset pool0 heap6 4208 3 50) = memory pool0 \<and>
   (1 :: size_t) < 3 \<and>
   snd (snd (MHD_pool_reset pool0 heap6 4208 3 50)) (memory pool0 + 1) = heap6 (4208 + 1) \<and>
   heap6 (4208 + 1) = of_char CHR ''y'' \<and>
   pool_end (fst (snd (MHD_pool_reset pool0 heap6 4208 3 50))) = pool_size pool0 \<and>
   pos (fst (snd (MHD_pool_reset pool0 heap6 4208 3 50))) = 64 \<and>
   (3 :: size_t) \<le> 500 \<and> 500 < pool_size pool0 \<and>
   snd (snd (MHD_pool_reset pool0 heap6 4208 3 50)) (memory pool0 + 500) = 0"
proof -
  have k: "(4208 :: ptr) \<noteq> NULL" by (simp add: NULL_def)
  have m: "memory pool0 \<noteq> NULL" by (simp add: pool0_def NULL_def)
  have b: "(1 :: size_t) < 3" "(3 :: size_t) \<le> 500" "500 < pool_size pool0"
    by (simp_all add: pool0_def)
  have y: "heap6 (4208 + 1) = of_char CHR ''y''" by (simp add: heap6_def write_bytes_def)
  have r: "ROUND_TO_ALIGN 50 = 64" by (simp add: ROUND_TO_ALIGN_def ALIGN_SIZE_def)
  from reset_relocation [where keep = 4208 and pool = pool0 and h = heap6 and copy_bytes = 3
      and new_size = 50, OF k m] b r have
    "fst (MHD_pool_reset pool0 heap6 4208 3 50) = memory pool0 \<and>
     snd (snd (MHD_pool_reset pool0 heap6 4208 3 50)) (memory pool0 + 1) = heap6 (4208 + 1) \<and>
     pool_end (fst (snd (MHD_pool_reset pool0 heap6 4208 3 50))) = pool_size pool0 \<and>
     pos (fst (snd (MHD_pool_reset pool0 heap6 4208 3 50))) = 64 \<and>
     snd (snd (MHD_pool_reset pool0 heap6 4208 3 50)) (memory pool0 + 500) = 0"
    by (simp add: split_def)
  with k m b y show ?thesis by simp
qed

text \<open>
  C1.  The claim is that \<open>MHD_pool_reset (pool, NULL, 0, 0)\<close> leaves \<open>pos\<close> at 0 whatever
  it was before.  The code assigns \<open>pos\<close> only under \<open>if (NULL != keep)\<close>: after one
  allocation of 100 bytes in the fresh pool \<open>pos\<close> is 112, and it is still 112 after the
  reset, although the whole buffer has been cleared and \<open>end\<close> is back at 1024.
\<close>

theorem reset_NULL_keeps_pos:
  "pos pool7 = 112 \<and>
   pos (fst (snd (MHD_pool_reset pool7 heap0 NULL 0 0))) = 112 \<and>
   pool_end (fst (snd (MHD_pool_reset pool7 heap0 NULL 0 0))) = 1024"
  by (simp add: pool7_eq MHD_pool_reset_def Let_def)

text \<open>
  C7, as stated: after \<open>p = allocate (100, false)\<close>, writing \<open>abcdefghij\<close> at \<open>p\<close> and
  \<open>reset (p, 10, 50)\<close> the call returns the buffer, its first ten bytes are \<open>abcdefghij\<close>,
  \<open>pos\<close> is 48 and \<open>end\<close> is 1024.  This fails in the fresh pool at 4096: 50 rounded up to
  a multiple of 16 is 64, not 48.
\<close>

theorem reset_scenario_counterexample:
  "\<not> (fst (MHD_pool_reset pool7 heap7 (fst (MHD_pool_allocate pool0 100 False)) 10 50)
        = memory pool0 \<and>
      read_bytes
        (snd (snd (MHD_pool_reset pool7 heap7 (fst (MHD_pool_allocate pool0 100 False)) 10 50)))
        (memory pool0) 10 = map of_char ''abcdefghij'' \<and>
      pos (fst (snd (MHD_pool_reset pool7 heap7 (fst (MHD_pool_allocate pool0 100 False)) 10 50)))
        = 48 \<and>
      pool_end
        (fst (snd (MHD_pool_reset pool7 heap7 (fst (MHD_pool_allocate pool0 100 False)) 10 50)))
        = 1024)"
  by (simp add: pool7_eq MHD_pool_reset_def Let_def ROUND_TO_ALIGN_def ALIGN_SIZE_def)

text \<open>
  C7, amended: in every pool that \<open>MHD_pool_create (1024)\<close> returns and every store, after
  \<open>p = allocate (100, false)\<close>, writing \<open>abcdefghij\<close> at \<open>p\<close> and \<open>reset (p, 10, 50)\<close> the
  call returns the buffer, its first ten bytes are \<open>abcdefghij\<close>, \<open>pos\<close> is 64 and \<open>end\<close>
  is 1024.
\<close>

theorem reset_scenario:
  assumes "MHD_pool_create ok mm ml 1024 = Some fresh"
  shows "(case MHD_pool_allocate fresh 100 False of (p, pool1) \<Rightarrow>
          case MHD_pool_reset pool1 (write_bytes h p (map of_char ''abcdefghij'')) p 10 50 of
            (r, pool2, h2) \<Rightarrow>
              r = memory fresh \<and> read_bytes h2 (memory fresh) 10 = map of_char ''abcdefghij'' \<and>
              pos pool2 = 64 \<and> pool_end pool2 = 1024)"
proof -
  note p = create_1024 [OF assms]
  from create_1024_memory [OF assms] show ?thesis
    apply (simp add: p MHD_pool_allocate_def MHD_pool_reset_def ROUND_TO_ALIGN_def
        ALIGN_SIZE_def Let_def)
    apply (simp add: read_bytes_def write_bytes_def memset_def upt_rec NULL_def)
    done
qed

text \<open>The scenario in the pool that \<open>malloc\<close> placed at 4096, starting from a zeroed store.\<close>

theorem reset_scenario_witness:
  "MHD_pool_create True MAP_FAILED 4096 1024 = Some pool0 \<and>
   (case MHD_pool_allocate pool0 100 False of (p, pool1) \<Rightarrow>
          case MHD_pool_reset pool1 (write_bytes heap0 p (map of_char ''abcdefghij'')) p 10 50 of
            (r, pool2, h2) \<Rightarrow>
              r = memory pool0 \<and> read_bytes h2 (memory pool0) 10 = map of_char ''abcdefghij'' \<and>
              pos pool2 = 64 \<and> pool_end pool2 = 1024)"
  using reset_scenario [OF create_pool0, of heap0] create_pool0 by simp

section \<open>The arena invariant\<close>

text \<open>
  C2, as stated: the invariant holds after every operation.  It does not hold after
  \<open>MHD_pool_reset (pool, buffer, 0, 2000)\<close> in the fresh pool of 1024 bytes: the reset
  stores \<open>ROUND_TO_ALIGN (2000) = 2000\<close> in \<open>pos\<close> without comparing it with the size, and
  \<open>end\<close> is 1024.
\<close>

theorem pool_inv_counterexample:
  "pool_inv pool0 \<and>
   \<not> pool_inv (fst (snd (MHD_pool_reset pool0 heap0 (memory pool0) 0 2000)))"
  by (simp add: pool0_inv)
    (simp add: pool0_def MHD_pool_reset_def Let_def pool_inv_def NULL_def ROUND_TO_ALIGN_def
      ALIGN_SIZE_def)

text \<open>
  C2, amended: a pool that \<open>MHD_pool_create\<close> returns satisfies \<open>0 \<le> pos \<le> end \<le> size\<close>
  with all three multiples of \<open>ALIGN_SIZE\<close>; \<open>MHD_pool_allocate\<close> and
  \<open>MHD_pool_reallocate\<close> keep this, whether they fail or not; \<open>MHD_pool_get_free\<close> changes
  nothing and returns at most the size; and \<open>MHD_pool_reset\<close> keeps it when \<open>keep\<close> is
  \<open>NULL\<close> or \<open>ROUND_TO_ALIGN new_size\<close> is at most the size.
\<close>

theorem pool_inv_preserved:
  "(MHD_pool_create ok mm ml mx = Some fresh \<longrightarrow> pool_inv fresh) \<and>
   (pool_inv pool \<longrightarrow>
      pool_inv (snd (MHD_pool_allocate pool sz from_end)) \<and>
      pool_inv (fst (snd (MHD_pool_reallocate pool h old old_size new_size))) \<and>
      (keep = NULL \<or> ROUND_TO_ALIGN new_size \<le> pool_size pool \<longrightarrow>
         pool_inv (fst (snd (MHD_pool_reset pool h keep copy_bytes new_size)))) \<and>
      MHD_pool_get_free pool \<le> pool_size pool)"
  by (simp add: create_inv allocate_inv reallocate_inv reset_inv get_free_le)

text \<open>
  The theorem at work on the pool at 4096: its creation, and then, after one allocation of
  100 bytes, an allocation from the end, a reallocation in place and a reset that keeps ten
  bytes with \<open>new_size = 50\<close>.
\<close>

theorem pool_inv_preserved_witness:
  "MHD_pool_create True MAP_FAILED 4096 1024 = Some pool0 \<and> pool_inv pool0 \<and>
   pool_inv pool7 \<and>
   pool_inv (snd (MHD_pool_allocate pool7 32 True)) \<and>
   pool_inv (fst (snd (MHD_pool_reallocate pool7 heap0 4096 100 200))) \<and>
   ROUND_TO_ALIGN 50 \<le> pool_size pool7 \<and>
   pool_inv (fst (snd (MHD_pool_reset pool7 heap0 4096 10 50))) \<and>
   MHD_pool_get_free pool7 \<le> pool_size pool7"
proof -
  have r: "ROUND_TO_ALIGN 50 \<le> pool_size pool7"
    by (simp add: pool7_eq ROUND_TO_ALIGN_def ALIGN_SIZE_def)
  from pool_inv_preserved [where ok = True and mm = MAP_FAILED and ml = 4096 and mx = 1024
      and fresh = pool0 and pool = pool7 and sz = 32 and from_end = True and h = heap0
      and old = 4096 and old_size = 100 and new_size = 200]
    pool_inv_preserved [where pool = pool7 and h = heap0 and keep = 4096 and copy_bytes = 10
      and new_size = 50]
  show ?thesis using create_pool0 pool7_inv r by simp
qed

section \<open>Failure\<close>

lemma allocate_NULL:
  assumes "buffer_ok pool" "pool_inv pool" "fst (MHD_pool_allocate pool sz from_end) = NULL"
  shows "snd (MHD_pool_allocate pool sz from_end) = pool"
proof -
  let ?a = "ROUND_TO_ALIGN sz"
  from assms(2) have o: "pos pool \<le> pool_end pool" by (simp add: pool_inv_def)
  show ?thesis
  proof (cases "(0 = ?a \<and> 0 \<noteq> sz) \<or> ?a > pool_end pool - pos pool")
    case True
    then show ?thesis
      by (cases from_end) (simp_all add: allocate_head [OF o] allocate_tail [OF o])
  next
    case False
    then have fit: "\<not> ?a > pool_end pool - pos pool" by simp
    have "memory pool + pos pool \<noteq> NULL"
      using assms(1,2) by (rule head_block_not_NULL)
    moreover have "memory pool + (pool_end pool - ?a) \<noteq> NULL"
      using assms(1,2) fit by (rule tail_block_not_NULL)
    ultimately have "fst (MHD_pool_allocate pool sz from_end) \<noteq> NULL"
      using False by (cases from_end) (simp_all add: allocate_head [OF o] allocate_tail [OF o])
    with assms(3) show ?thesis by simp
  qed
qed

lemma reallocate_NULL:
  assumes "buffer_ok pool" "pool_inv pool" "old \<noteq> NULL \<or> old_size = 0"
    and "fst (MHD_pool_reallocate pool h old old_size new_size) = NULL"
  shows "snd (MHD_pool_reallocate pool h old old_size new_size) = (pool, h)"
proof -
  have nn: "memory pool + pos pool \<noteq> NULL"
    using assms(1,2) by (rule head_block_not_NULL)
  show ?thesis using assms(3,4) nn
    by (auto simp add: MHD_pool_reallocate_def Let_def split: if_splits)
qed

lemma fill_scenario:
  assumes "MHD_pool_create ok mm ml 1024 = Some fresh"
  shows "fst (MHD_pool_allocate fresh 1024 False) \<noteq> NULL \<and>
         MHD_pool_allocate (snd (MHD_pool_allocate fresh 1024 False)) 1 False
           = (NULL, snd (MHD_pool_allocate fresh 1024 False)) \<and>
         MHD_pool_allocate (snd (MHD_pool_allocate fresh 1024 False)) 1 True
           = (NULL, snd (MHD_pool_allocate fresh 1024 False))"
  using create_1024_memory [OF assms]
  by (simp add: create_1024 [OF assms] MHD_pool_allocate_def ROUND_TO_ALIGN_def ALIGN_SIZE_def
      Let_def NULL_def)

text \<open>
  C3.  When \<open>MHD_pool_allocate\<close> or \<open>MHD_pool_reallocate\<close> returns \<open>NULL\<close>, the pool is
  the pool before the call and so is the store (\<open>MHD_pool_allocate\<close> never writes to it).
  The pool is one that satisfies the arena invariant and owns a buffer, and \<open>old\<close> obeys
  the function's assertion \<open>old != NULL || old_size == 0\<close>.  In a fresh pool of 1024 bytes,
  \<open>allocate (1024, false)\<close> succeeds, and then \<open>allocate (1, false)\<close> and
  \<open>allocate (1, true)\<close> both return \<open>NULL\<close> and leave the pool as it was.
\<close>

theorem failure_changes_nothing:
  assumes "buffer_ok pool" and "pool_inv pool" and "old \<noteq> NULL \<or> old_size = 0"
    and "MHD_pool_create ok mm ml 1024 = Some fresh"
  shows "(fst (MHD_pool_allocate pool sz from_end) = NULL \<longrightarrow>
            snd (MHD_pool_allocate pool sz from_end) = pool) \<and>
         (fst (MHD_pool_reallocate pool h old old_size new_size) = NULL \<longrightarrow>
            snd (MHD_pool_reallocate pool h old old_size new_size) = (pool, h)) \<and>
         fst (MHD_pool_allocate fresh 1024 False) \<noteq> NULL \<and>
         MHD_pool_allocate (snd (MHD_pool_allocate fresh 1024 False)) 1 False
           = (NULL, snd (MHD_pool_allocate fresh 1024 False)) \<and>
         MHD_pool_allocate (snd (MHD_pool_allocate fresh 1024 False)) 1 True
           = (NULL, snd (MHD_pool_allocate fresh 1024 False))"
  using allocate_NULL [OF assms(1,2)] reallocate_NULL [OF assms(1,2,3)] fill_scenario [OF assms(4)]
  by simp

text \<open>
  Two failing calls after one allocation of 100 bytes, each asking for 2000 bytes, and the
  fill scenario in the pool at 4096.
\<close>

theorem failure_changes_nothing_witness:
  "buffer_ok pool7 \<and> pool_inv pool7 \<and> (4096 :: ptr) \<noteq> NULL \<and>
   MHD_pool_create True MAP_FAILED 4096 1024 = Some pool0 \<and>
   fst (MHD_pool_allocate pool7 2000 True) = NULL \<and>
   snd (MHD_pool_allocate pool7 2000 True) = pool7 \<and>
   fst (MHD_pool_reallocate pool7 heap7 4096 100 2000) = NULL \<and>
   snd (MHD_pool_reallocate pool7 heap7 4096 100 2000) = (pool7, heap7) \<and>
   fst (MHD_pool_allocate pool0 1024 False) \<noteq> NULL \<and>
   MHD_pool_allocate (snd (MHD_pool_allocate pool0 1024 False)) 1 False
     = (NULL, snd (MHD_pool_allocate pool0 1024 False)) \<and>
   MHD_pool_allocate (snd (MHD_pool_allocate pool0 1024 False)) 1 True
     = (NULL, snd (MHD_pool_allocate pool0 1024 False))"
proof -
  have n: "(4096 :: ptr) \<noteq> NULL \<or> (100 :: size_t) = 0" by (simp add: NULL_def)
  have a: "fst (MHD_pool_allocate pool7 2000 True) = NULL"
    by (simp add: pool7_eq MHD_pool_allocate_def Let_def ROUND_TO_ALIGN_def ALIGN_SIZE_def)
  have r: "fst (MHD_pool_reallocate pool7 heap7 4096 100 2000) = NULL"
    by (simp add: pool7_eq MHD_pool_reallocate_def Let_def ROUND_TO_ALIGN_def ALIGN_SIZE_def)
  from failure_changes_nothing [OF pool7_ok pool7_inv n create_pool0, of 2000 True heap7 2000] a r
  show ?thesis using pool7_ok pool7_inv create_pool0 by (simp add: NULL_def)
qed

section \<open>Successful allocation\<close>

lemma ROUND_32: "ROUND_TO_ALIGN 32 = 32"
  by (simp add: ROUND_TO_ALIGN_def ALIGN_SIZE_def)

lemma first_allocations:
  assumes "MHD_pool_create ok mm ml 1024 = Some fresh"
  shows "MHD_pool_allocate fresh 100 False = (memory fresh + 0, fresh\<lparr>pos := 112\<rparr>)"
    and "MHD_pool_get_free (fresh\<lparr>pos := 112\<rparr>) = 912"
    and "MHD_pool_allocate fresh 32 True = (memory fresh + 992, fresh\<lparr>pool_end := 992\<rparr>)"
    and "MHD_pool_get_free (fresh\<lparr>pool_end := 992\<rparr>) = 992"
  by (simp_all add: create_1024 [OF assms] MHD_pool_allocate_def MHD_pool_get_free_def Let_def
      ROUND_100 ROUND_32)

text \<open>
  C8, as stated: whenever \<open>asize = ROUND_TO_ALIGN size\<close> is at most \<open>end - pos\<close> the
  allocation succeeds.  For \<open>size = SIZE_MAX\<close> the rounding wraps to 0, which is at most
  the 1024 free bytes of the fresh pool, and yet both allocations return \<open>NULL\<close>: the
  function rejects a size whose rounding wrapped (\<open>(0 == asize) && (0 != size)\<close>).
\<close>

theorem allocate_wrapped_size_counterexample:
  "ROUND_TO_ALIGN (- 1) \<le> pool_end pool0 - pos pool0 \<and>
   fst (MHD_pool_allocate pool0 (- 1) False) = NULL \<and>
   fst (MHD_pool_allocate pool0 (- 1) True) = NULL \<and>
   memory pool0 + pos pool0 \<noteq> NULL"
  by (simp add: pool0_def MHD_pool_allocate_def Let_def ROUND_TO_ALIGN_def ALIGN_SIZE_def NULL_def)

text \<open>
  C8, amended: in every pool that satisfies the arena invariant and owns a buffer, for every
  size with \<open>asize = ROUND_TO_ALIGN size \<le> end - pos\<close> whose rounding did not wrap
  (\<open>asize \<noteq> 0\<close> or \<open>size = 0\<close>), the allocation succeeds: from the head it returns
  \<open>memory + pos\<close> and adds \<open>asize\<close> to \<open>pos\<close>; from the end it subtracts \<open>asize\<close> from
  \<open>end\<close> and returns \<open>memory + end\<close>.  In a fresh pool of 1024 bytes,
  \<open>allocate (100, false)\<close> returns the buffer, leaving \<open>pos = 112\<close> and 912 free bytes, and
  \<open>allocate (32, true)\<close> returns \<open>buffer + 992\<close>, leaving \<open>end = 992\<close> and 992 free bytes.
\<close>

theorem allocate_fits:
  assumes "buffer_ok pool" and "pool_inv pool"
    and "ROUND_TO_ALIGN sz \<le> pool_end pool - pos pool"
    and "ROUND_TO_ALIGN sz \<noteq> 0 \<or> sz = 0"
    and "MHD_pool_create ok mm ml 1024 = Some fresh"
  shows "MHD_pool_allocate pool sz False =
           (memory pool + pos pool, pool\<lparr>pos := pos pool + ROUND_TO_ALIGN sz\<rparr>) \<and>
         memory pool + pos pool \<noteq> NULL \<and>
         MHD_pool_allocate pool sz True =
           (memory pool + (pool_end pool - ROUND_TO_ALIGN sz),
            pool\<lparr>pool_end := pool_end pool - ROUND_TO_ALIGN sz\<rparr>) \<and>
         memory pool + (pool_end pool - ROUND_TO_ALIGN sz) \<noteq> NULL \<and>
         MHD_pool_allocate fresh 100 False = (memory fresh + 0, fresh\<lparr>pos := 112\<rparr>) \<and>
         MHD_pool_get_free (fresh\<lparr>pos := 112\<rparr>) = 912 \<and>
         MHD_pool_allocate fresh 32 True = (memory fresh + 992, fresh\<lparr>pool_end := 992\<rparr>) \<and>
         MHD_pool_get_free (fresh\<lparr>pool_end := 992\<rparr>) = 992"
proof -
  let ?a = "ROUND_TO_ALIGN sz"
  from assms(2) have o: "pos pool \<le> pool_end pool" by (simp add: pool_inv_def)
  from assms(3) have fit: "\<not> ?a > pool_end pool - pos pool" by simp
  from assms(4) have g: "\<not> (0 = ?a \<and> 0 \<noteq> sz)" by auto
  have "MHD_pool_allocate pool sz False =
           (memory pool + pos pool, pool\<lparr>pos := pos pool + ?a\<rparr>)"
    using fit g by (simp only: allocate_head [OF o] simp_thms if_False)
  moreover have "MHD_pool_allocate pool sz True =
           (memory pool + (pool_end pool - ?a), pool\<lparr>pool_end := pool_end pool - ?a\<rparr>)"
    using fit g by (simp only: allocate_tail [OF o] simp_thms if_False)
  moreover have "memory pool + pos pool \<noteq> NULL"
    using assms(1,2) by (rule head_block_not_NULL)
  moreover have "memory pool + (pool_end pool - ?a) \<noteq> NULL"
    using assms(1,2) fit by (rule tail_block_not_NULL)
  ultimately show ?thesis using first_allocations [OF assms(5)] by simp
qed

text \<open>
  The theorem at work after one allocation of 100 bytes: 50 more bytes fit, at offset 112
  from the head or at offset 960 from the end.
\<close>

theorem allocate_fits_witness:
  "buffer_ok pool7 \<and> pool_inv pool7 \<and>
   ROUND_TO_ALIGN 50 \<le> pool_end pool7 - pos pool7 \<and> ROUND_TO_ALIGN 50 \<noteq> 0 \<and>
   MHD_pool_create True MAP_FAILED 4096 1024 = Some pool0 \<and>
   MHD_pool_allocate pool7 50 False = (4096 + 112, pool7\<lparr>pos := 176\<rparr>) \<and>
   (4096 + 112 :: ptr) \<noteq> NULL \<and>
   MHD_pool_allocate pool7 50 True = (4096 + 960, pool7\<lparr>pool_end := 960\<rparr>) \<and>
   (4096 + 960 :: ptr) \<noteq> NULL \<and>
   MHD_pool_allocate pool0 100 False = (memory pool0 + 0, pool0\<lparr>pos := 112\<rparr>) \<and>
   MHD_pool_get_free (pool0\<lparr>pos := 112\<rparr>) = 912 \<and>
   MHD_pool_allocate pool0 32 True = (memory pool0 + 992, pool0\<lparr>pool_end := 992\<rparr>) \<and>
   MHD_pool_get_free (pool0\<lparr>pool_end := 992\<rparr>) = 992"
proof -
  have r: "ROUND_TO_ALIGN 50 = 64" by (simp add: ROUND_TO_ALIGN_def ALIGN_SIZE_def)
  have f: "ROUND_TO_ALIGN 50 \<le> pool_end pool7 - pos pool7" by (simp add: r pool7_eq)
  have z: "ROUND_TO_ALIGN 50 \<noteq> 0 \<or> (50 :: size_t) = 0" by (simp add: r)
  have v: "memory pool7 = 4096" "pos pool7 = 112" "pool_end pool7 = 1024"
    by (simp_all add: pool7_eq)
  from allocate_fits [OF pool7_ok pool7_inv f z create_pool0]
  show ?thesis using pool7_ok pool7_inv f create_pool0 by (simp add: r v)
qed

section \<open>Reallocation\<close>

text \<open>
  C10.  In a pool that satisfies the arena invariant and owns a buffer,
  \<open>MHD_pool_reallocate (pool, old, 0, new_size)\<close> returns what
  \<open>MHD_pool_allocate (pool, new_size, false)\<close> returns and leaves the same pool, for every
  \<open>old\<close> and every \<open>new_size\<close>, and the store is untouched.  The two functions reject
  large sizes by different tests; they agree because the buffer, being an object, is
  smaller than the sizes on which the tests differ.
\<close>

theorem reallocate_of_nothing:
  assumes "pool_inv pool" and "buffer_ok pool"
  shows "MHD_pool_reallocate pool h old 0 new_size =
     (fst (MHD_pool_allocate pool new_size False), snd (MHD_pool_allocate pool new_size False), h)"
proof -
  let ?a = "ROUND_TO_ALIGN new_size"
  from assms have o: "pos pool \<le> pool_end pool" "pool_end pool \<le> pool_size pool"
    and s: "unat (pool_size pool) < 2 ^ 63"
    by (simp_all add: pool_inv_def buffer_ok_def)
  from o s have fr: "unat (pool_end pool - pos pool) < 2 ^ 63" by unat_arith
  have "(new_size + 2 * ALIGN_SIZE < new_size \<or> ?a > pool_end pool - pos pool)
      = ((?a = 0 \<and> new_size \<noteq> 0) \<or> ?a > pool_end pool - pos pool)"
  proof (cases "2 ^ 64 \<le> unat new_size + 32")
    case False
    then show ?thesis by (simp add: guard_iff ROUND_zero)
  next
    case True
    show ?thesis
    proof (cases "2 ^ 64 \<le> unat new_size + 15")
      case True
      then show ?thesis by (simp add: guard_iff ROUND_zero)
    next
      case False
      with True have "2 ^ 63 \<le> unat ?a" by (intro ROUND_big) simp_all
      with fr have "?a > pool_end pool - pos pool" by (simp add: word_less_nat_alt)
      then show ?thesis by simp
    qed
  qed
  then show ?thesis
    by (auto simp add: reallocate_0 allocate_head [OF o(1)])
qed

text \<open>
  The theorem at work after one allocation of 100 bytes: for \<open>new_size = 200\<close> both calls
  return offset 112 and leave \<open>pos = 320\<close>; for \<open>new_size = SIZE_MAX\<close> both return \<open>NULL\<close>.
\<close>

theorem reallocate_of_nothing_witness:
  "pool_inv pool7 \<and> buffer_ok pool7 \<and>
   MHD_pool_reallocate pool7 heap7 0 0 200 = (4096 + 112, pool7\<lparr>pos := 320\<rparr>, heap7) \<and>
   MHD_pool_allocate pool7 200 False = (4096 + 112, pool7\<lparr>pos := 320\<rparr>) \<and>
   MHD_pool_reallocate pool7 heap7 0 0 (- 1) = (NULL, pool7, heap7) \<and>
   MHD_pool_allocate pool7 (- 1) False = (NULL, pool7)"
proof -
  have a: "MHD_pool_allocate pool7 200 False = (4096 + 112, pool7\<lparr>pos := 320\<rparr>)"
    by (simp add: pool7_eq MHD_pool_allocate_def Let_def ROUND_TO_ALIGN_def ALIGN_SIZE_def)
  have b: "MHD_pool_allocate pool7 (- 1) False = (NULL, pool7)"
    by (simp add: pool7_eq MHD_pool_allocate_def Let_def ROUND_TO_ALIGN_def ALIGN_SIZE_def)
  from reallocate_of_nothing [OF pool7_inv pool7_ok, of heap7 0 200]
    reallocate_of_nothing [OF pool7_inv pool7_ok, of heap7 0 "- 1"]
  show ?thesis using pool7_inv pool7_ok by (simp add: a b)
qed

lemma reallocate_last:
  assumes "0 \<noteq> old_size" and "pos pool = ROUND_TO_ALIGN (old - memory pool + old_size)"
  shows "MHD_pool_reallocate pool h old old_size new_size =
     (if new_size + 2 * ALIGN_SIZE < new_size \<or>
         ROUND_TO_ALIGN (old - memory pool + new_size) > pool_end pool
      then (NULL, pool, h)
      else (old, pool\<lparr>pos := ROUND_TO_ALIGN (old - memory pool + new_size)\<rparr>,
            if old_size > new_size then memset h (old + new_size) 0 (old_size - new_size)
            else h))"
  using assms by (simp add: MHD_pool_reallocate_def Let_def)

lemma shrink_range:
  "n < s \<Longrightarrow> (d - n < s - n) = (n \<le> d \<and> d < s)" for n s d :: size_t
  by unat_arith

lemma memset_tail:
  "new_size < old_size \<Longrightarrow>
   memset h (old + new_size) 0 (old_size - new_size) a =
     (if new_size \<le> a - old \<and> a - old < old_size then 0 else h a)"
proof -
  assume l: "new_size < old_size"
  have e: "a - (old + new_size) = (a - old) - new_size" by simp
  show ?thesis unfolding memset_def e shrink_range [OF l] by simp
qed

lemma grow_scenario:
  assumes "MHD_pool_create ok mm ml 1024 = Some fresh"
  shows "(case MHD_pool_allocate fresh 100 False of (p, pool1) \<Rightarrow>
            case MHD_pool_reallocate pool1 h p 100 200 of (r, pool2, h2) \<Rightarrow>
              r = p \<and> r \<noteq> NULL \<and> pos pool2 = 208)"
  using create_1024_memory [OF assms]
  by (simp add: create_1024 [OF assms] MHD_pool_allocate_def MHD_pool_reallocate_def Let_def
      ROUND_TO_ALIGN_def ALIGN_SIZE_def)

text \<open>
  C4, as stated: for the last block, reallocation fails exactly when
  \<open>ROUND_TO_ALIGN (old_offset + new_size)\<close> exceeds \<open>end\<close>.  After one allocation of 100
  bytes at \<open>p\<close>, \<open>MHD_pool_reallocate (pool, p, 100, SIZE_MAX)\<close> returns \<open>NULL\<close> although
  \<open>ROUND_TO_ALIGN (0 + SIZE_MAX) = 0\<close> does not exceed \<open>end\<close>: the function first rejects
  every \<open>new_size\<close> for which \<open>new_size + 2 * ALIGN_SIZE\<close> wraps.
\<close>

theorem reallocate_last_block_counterexample:
  "0 \<noteq> (100 :: size_t) \<and> pos pool7 = ROUND_TO_ALIGN (4096 - memory pool7 + 100) \<and>
   \<not> ROUND_TO_ALIGN (4096 - memory pool7 + (- 1)) > pool_end pool7 \<and>
   fst (MHD_pool_reallocate pool7 heap7 4096 100 (- 1)) = NULL \<and> (4096 :: ptr) \<noteq> NULL"
  by (simp add: pool7_eq MHD_pool_reallocate_def Let_def ROUND_TO_ALIGN_def ALIGN_SIZE_def
      NULL_def)

text \<open>
  C4, amended.  Let \<open>old\<close> be not \<open>NULL\<close>, \<open>old_size\<close> not 0 and
  \<open>pos = ROUND_TO_ALIGN (old_offset + old_size)\<close> with \<open>old_offset = old - memory\<close>.
  The statement is about the requests that the overflow test rejects
  (\<open>new_size + 2 * ALIGN_SIZE\<close> wraps) and about those for which
  \<open>old_offset + new_size\<close>, rounded up, does not wrap; a request that passes the test and
  still wraps in this sum is outside it.  Then the reallocation fails exactly when
  \<open>new_size + 2 * ALIGN_SIZE\<close> wraps or \<open>ROUND_TO_ALIGN (old_offset + new_size)\<close> exceeds
  \<open>end\<close>.  Otherwise it returns \<open>old\<close>, sets \<open>pos\<close> to
  \<open>ROUND_TO_ALIGN (old_offset + new_size)\<close>, which is then the sum rounded up on the natural
  numbers, and changes nothing else in the pool, and the store afterwards is the store
  before with the bytes from \<open>old + new_size\<close> up to \<open>old + old_size\<close> set to zero (no byte
  when the block does not shrink).  In a fresh pool of 1024 bytes, after
  \<open>p = allocate (100, false)\<close> the call \<open>reallocate (p, 100, 200)\<close> returns \<open>p\<close> and leaves
  \<open>pos = 208\<close>.
\<close>

theorem reallocate_last_block:
  assumes "0 \<noteq> old_size" and "pos pool = ROUND_TO_ALIGN (old - memory pool + old_size)"
    and "old \<noteq> NULL"
    and "new_size + 2 * ALIGN_SIZE < new_size \<or>
         unat (old - memory pool) + unat new_size + 15 < 2 ^ 64"
    and "MHD_pool_create ok mm ml 1024 = Some fresh"
  shows "(case MHD_pool_reallocate pool h old old_size new_size of (r, pool', h') \<Rightarrow>
           (r = NULL) = (new_size + 2 * ALIGN_SIZE < new_size \<or>
                         ROUND_TO_ALIGN (old - memory pool + new_size) > pool_end pool) \<and>
           (r \<noteq> NULL \<longrightarrow>
              r = old \<and>
              pool' = pool\<lparr>pos := ROUND_TO_ALIGN (old - memory pool + new_size)\<rparr> \<and>
              unat (pos pool') = (unat (old - memory pool) + unat new_size + 15) div 16 * 16 \<and>
              (\<forall>a. h' a = (if new_size \<le> a - old \<and> a - old < old_size then 0 else h a)))) \<and>
         (case MHD_pool_allocate fresh 100 False of (p, pool1) \<Rightarrow>
            case MHD_pool_reallocate pool1 h p 100 200 of (r, pool2, h2) \<Rightarrow>
              r = p \<and> r \<noteq> NULL \<and> pos pool2 = 208)"
proof -
  let ?fail = "new_size + 2 * ALIGN_SIZE < new_size \<or>
               ROUND_TO_ALIGN (old - memory pool + new_size) > pool_end pool"
  have "case MHD_pool_reallocate pool h old old_size new_size of (r, pool', h') \<Rightarrow>
           (r = NULL) = ?fail \<and>
           (r \<noteq> NULL \<longrightarrow>
              r = old \<and>
              pool' = pool\<lparr>pos := ROUND_TO_ALIGN (old - memory pool + new_size)\<rparr> \<and>
              unat (pos pool') = (unat (old - memory pool) + unat new_size + 15) div 16 * 16 \<and>
              (\<forall>a. h' a = (if new_size \<le> a - old \<and> a - old < old_size then 0 else h a)))"
  proof (cases ?fail)
    case True
    then show ?thesis by (simp add: reallocate_last [OF assms(1,2)])
  next
    case False
    with assms(4) have "unat (old - memory pool) + unat new_size + 15 < 2 ^ 64" by blast
    then have ex: "unat (ROUND_TO_ALIGN (old - memory pool + new_size))
        = (unat (old - memory pool) + unat new_size + 15) div 16 * 16"
      by (rule ROUND_exact_sum)
    show ?thesis
    proof (cases "old_size > new_size")
      case True
      with False assms(3) ex show ?thesis
        by (simp add: reallocate_last [OF assms(1,2)] memset_tail)
    next
      case False
      then have "\<And>a. new_size \<le> a - old \<Longrightarrow> a - old < old_size \<Longrightarrow> False" by auto
      with False \<open>\<not> ?fail\<close> assms(3) ex show ?thesis
        by (auto simp add: reallocate_last [OF assms(1,2)])
    qed
  qed
  with grow_scenario [OF assms(5)] show ?thesis by simp
qed

text \<open>
  The theorem at work on the block \<open>p\<close> of 100 bytes that holds \<open>abcdefghij\<close>: shrinking
  it to 4 bytes returns \<open>p\<close>, leaves \<open>pos = 16\<close>, keeps the \<open>d\<close> at offset 3 and clears the
  \<open>f\<close> at offset 5; growing it to 2000 bytes fails, and so does growing it to \<open>SIZE_MAX\<close>
  bytes, which the overflow test rejects; growing it to 200 bytes is the scenario.
\<close>

theorem reallocate_last_block_witness:
  "0 \<noteq> (100 :: size_t) \<and> pos pool7 = ROUND_TO_ALIGN (4096 - memory pool7 + 100) \<and>
   (4096 :: ptr) \<noteq> NULL \<and> MHD_pool_create True MAP_FAILED 4096 1024 = Some pool0 \<and>
   unat (4096 - memory pool7) + unat (4 :: size_t) + 15 < 2 ^ 64 \<and>
   fst (MHD_pool_reallocate pool7 heap7 4096 100 4) = 4096 \<and>
   pos (fst (snd (MHD_pool_reallocate pool7 heap7 4096 100 4))) = 16 \<and>
   snd (snd (MHD_pool_reallocate pool7 heap7 4096 100 4)) (4096 + 3) = of_char CHR ''d'' \<and>
   heap7 (4096 + 5) = of_char CHR ''f'' \<and>
   snd (snd (MHD_pool_reallocate pool7 heap7 4096 100 4)) (4096 + 5) = 0 \<and>
   unat (4096 - memory pool7) + unat (2000 :: size_t) + 15 < 2 ^ 64 \<and>
   fst (MHD_pool_reallocate pool7 heap7 4096 100 2000) = NULL \<and>
   - 1 + 2 * ALIGN_SIZE < (- 1 :: size_t) \<and>
   fst (MHD_pool_reallocate pool7 heap7 4096 100 (- 1)) = NULL \<and>
   fst (MHD_pool_reallocate (snd (MHD_pool_allocate pool0 100 False)) heap0
          (fst (MHD_pool_allocate pool0 100 False)) 100 200)
     = fst (MHD_pool_allocate pool0 100 False) \<and>
   pos (fst (snd (MHD_pool_reallocate (snd (MHD_pool_allocate pool0 100 False)) heap0
          (fst (MHD_pool_allocate pool0 100 False)) 100 200))) = 208"
proof -
  have z: "0 \<noteq> (100 :: size_t)" by simp
  have l: "pos pool7 = ROUND_TO_ALIGN (4096 - memory pool7 + 100)"
    by (simp add: pool7_eq ROUND_100)
  have n: "(4096 :: ptr) \<noteq> NULL" by (simp add: NULL_def)
  have m: "memory pool7 = 4096" "pool_end pool7 = 1024" by (simp_all add: pool7_eq)
  have r: "ROUND_TO_ALIGN 4 = 16" "ROUND_TO_ALIGN 2000 = 2000"
    by (simp_all add: ROUND_TO_ALIGN_def ALIGN_SIZE_def)
  have g: "\<not> (4 + 2 * ALIGN_SIZE < (4 :: size_t))" "\<not> (2000 + 2 * ALIGN_SIZE < (2000 :: size_t))"
    by (simp_all add: ALIGN_SIZE_def)
  have w4: "unat (4096 - memory pool7) + unat (4 :: size_t) + 15 < 2 ^ 64"
    and w2000: "unat (4096 - memory pool7) + unat (2000 :: size_t) + 15 < 2 ^ 64"
    by (simp_all add: m)
  have wmax: "- 1 + 2 * ALIGN_SIZE < (- 1 :: size_t)" by (simp add: ALIGN_SIZE_def)
  have h: "heap7 (4096 + 3) = of_char CHR ''d''" "heap7 (4096 + 5) = of_char CHR ''f''"
    by (simp_all add: heap7_def write_bytes_def pool0_def MHD_pool_allocate_def Let_def ROUND_100)
  note t = reallocate_last_block [OF z l n disjI2 [OF w4] create_pool0, where h = heap7]
  from t have nn: "fst (MHD_pool_reallocate pool7 heap7 4096 100 4) \<noteq> NULL"
    by (simp add: split_def m r g)
  from t nn have e: "fst (MHD_pool_reallocate pool7 heap7 4096 100 4) = 4096"
    "fst (snd (MHD_pool_reallocate pool7 heap7 4096 100 4)) = pool7\<lparr>pos := 16\<rparr>"
    "\<forall>a. snd (snd (MHD_pool_reallocate pool7 heap7 4096 100 4)) a =
       (if 4 \<le> a - 4096 \<and> a - 4096 < 100 then 0 else heap7 a)"
    by (simp_all add: split_def m r g)
  from e(3) [rule_format, of "4096 + 3"] e(3) [rule_format, of "4096 + 5"] e(1,2) h
  have a: "fst (MHD_pool_reallocate pool7 heap7 4096 100 4) = 4096 \<and>
   pos (fst (snd (MHD_pool_reallocate pool7 heap7 4096 100 4))) = 16 \<and>
   snd (snd (MHD_pool_reallocate pool7 heap7 4096 100 4)) (4096 + 3) = of_char CHR ''d'' \<and>
   snd (snd (MHD_pool_reallocate pool7 heap7 4096 100 4)) (4096 + 5) = 0"
    by simp
  from reallocate_last_block [OF z l n disjI2 [OF w2000] create_pool0, where h = heap7]
  have b: "fst (MHD_pool_reallocate pool7 heap7 4096 100 2000) = NULL"
    by (simp add: split_def m r g)
  from reallocate_last_block [OF z l n disjI1 [OF wmax] create_pool0, where h = heap7] wmax
  have d: "fst (MHD_pool_reallocate pool7 heap7 4096 100 (- 1)) = NULL"
    by (simp add: split_def)
  from reallocate_last_block [OF z l n disjI2 [OF w4] create_pool0, where h = heap0]
  have c: "fst (MHD_pool_reallocate (snd (MHD_pool_allocate pool0 100 False)) heap0
          (fst (MHD_pool_allocate pool0 100 False)) 100 200)
     = fst (MHD_pool_allocate pool0 100 False) \<and>
   pos (fst (snd (MHD_pool_reallocate (snd (MHD_pool_allocate pool0 100 False)) heap0
          (fst (MHD_pool_allocate pool0 100 False)) 100 200))) = 208"
    by (simp add: split_def)
  from z l n create_pool0 w4 w2000 wmax a b c d h show ?thesis by simp
qed

text \<open>
  A request outside the theorem.  With \<open>q9\<close> the last block, at offset 112,
  \<open>new_size = SIZE_MAX - 32\<close> passes the overflow test, \<open>old_offset + new_size\<close> wraps
  to 79, and the call returns \<open>q9\<close> and leaves \<open>pos = 80\<close>, below the block itself.
\<close>

lemma reallocate_wrapped_offset:
  "q9 = 4096 + 112 \<and> pos pool9c = ROUND_TO_ALIGN (q9 - memory pool9c + 50) \<and>
   \<not> (- 33 + 2 * ALIGN_SIZE < (- 33 :: size_t)) \<and>
   fst (MHD_pool_reallocate pool9c heap9b q9 50 (- 33)) = q9 \<and>
   pos (fst (snd (MHD_pool_reallocate pool9c heap9b q9 50 (- 33)))) = 80"
proof -
  have q: "q9 = 4096 + 112"
    by (simp add: q9_def pool9b_def pool9a_def pool0_def MHD_pool_allocate_def Let_def
        ROUND_TO_ALIGN_def ALIGN_SIZE_def)
  have c: "pool9c =
      \<lparr>memory = 4096, pool_size = 1024, pos = 176, pool_end = 224, is_mmap = False\<rparr>"
    by (simp add: pool9c_def pool9b_def pool9a_def pool0_def MHD_pool_allocate_def Let_def
        ROUND_TO_ALIGN_def ALIGN_SIZE_def)
  have r: "MHD_pool_reallocate
        \<lparr>memory = 4096, pool_size = 1024, pos = 176, pool_end = 224, is_mmap = False\<rparr>
        heap9b 4208 50 (- 33) =
      (4208, \<lparr>memory = 4096, pool_size = 1024, pos = 80, pool_end = 224, is_mmap = False\<rparr>,
       heap9b)"
    by (simp add: MHD_pool_reallocate_def Let_def ROUND_TO_ALIGN_def ALIGN_SIZE_def)
  have 1: "pos pool9c = ROUND_TO_ALIGN (q9 - memory pool9c + 50)"
    by (simp add: q c ROUND_TO_ALIGN_def ALIGN_SIZE_def)
  have 2: "\<not> (- 33 + 2 * ALIGN_SIZE < (- 33 :: size_t))" by (simp add: ALIGN_SIZE_def)
  have 3: "fst (MHD_pool_reallocate pool9c heap9b q9 50 (- 33)) = q9"
    and 4: "pos (fst (snd (MHD_pool_reallocate pool9c heap9b q9 50 (- 33)))) = 80"
    by (simp_all add: q c r)
  show ?thesis by (intro conjI q 1 2 3 4)
qed

section \<open>Reallocation of a block that is not the last\<close>

lemma pool5_eq:
  "pool5 = \<lparr>memory = 4096, pool_size = 1024, pos = 176, pool_end = 1024, is_mmap = False\<rparr>"
  by (simp add: pool5_def pool7_eq MHD_pool_allocate_def Let_def ROUND_TO_ALIGN_def ALIGN_SIZE_def)

lemma pool5_inv: "pool_inv pool5"
  by (simp add: pool5_eq pool_inv_def aligned_def ALIGN_SIZE_def)

lemma pool5_ok: "buffer_ok pool5"
  by (simp add: pool5_eq buffer_ok_def NULL_def)

lemma reallocate_other:
  assumes "0 \<noteq> old_size" and "pos pool \<noteq> ROUND_TO_ALIGN (old - memory pool + old_size)"
  shows "MHD_pool_reallocate pool h old old_size new_size =
     (if new_size + 2 * ALIGN_SIZE < new_size \<or>
         ROUND_TO_ALIGN new_size > pool_end pool - pos pool
      then (NULL, pool, h)
      else (memory pool + pos pool, pool\<lparr>pos := pos pool + ROUND_TO_ALIGN new_size\<rparr>,
            memset (memcpy h (memory pool + pos pool) old old_size) old 0 old_size))"
  using assms by (simp add: MHD_pool_reallocate_def Let_def)

text \<open>
  A block that lies in the head region, below \<open>pos\<close>: where the new block at \<open>pos\<close> is
  relative to it.
\<close>

lemma head_block_gap:
  assumes "buffer_ok pool" and "pool_inv pool"
    and "unat (memory pool) \<le> unat old"
    and "unat old + unat old_size \<le> unat (memory pool) + unat (pos pool)"
  shows "unat (memory pool + pos pool - old) = unat (memory pool) + unat (pos pool) - unat old"
    and "unat (memory pool) + unat (pos pool) - unat old < 2 ^ 63"
proof -
  from assms(2) have "pos pool \<le> pool_end pool" "pool_end pool \<le> pool_size pool"
    by (simp_all add: pool_inv_def)
  then have ps: "unat (pos pool) \<le> unat (pool_size pool)" by (simp add: word_le_nat_alt)
  from assms(1) have b: "unat (memory pool) + unat (pool_size pool) < 2 ^ 64"
    "unat (pool_size pool) < 2 ^ 63" by (simp_all add: buffer_ok_def)
  from ps b(1) have "unat (memory pool) + unat (pos pool) < 2 ^ 64" by simp
  then have n: "unat (memory pool + pos pool) = unat (memory pool) + unat (pos pool)"
    by (simp add: unat_word_ariths)
  with assms(4) have "old \<le> memory pool + pos pool" by (simp add: word_le_nat_alt)
  then have "unat (memory pool + pos pool - old) = unat (memory pool + pos pool) - unat old"
    by (rule unat_sub)
  with n show "unat (memory pool + pos pool - old) = unat (memory pool) + unat (pos pool) - unat old"
    by simp
  from assms(3) ps b(2) show "unat (memory pool) + unat (pos pool) - unat old < 2 ^ 63"
    by simp
qed

lemma new_block_outside_old:
  assumes "buffer_ok pool" and "pool_inv pool"
    and "unat (memory pool) \<le> unat old"
    and "unat old + unat old_size \<le> unat (memory pool) + unat (pos pool)"
    and "i < old_size"
  shows "\<not> (memory pool + pos pool + i - old < old_size)"
proof -
  let ?g = "memory pool + pos pool - old"
  note g = head_block_gap [OF assms(1-4)]
  from assms(5) have i: "unat i < unat old_size" by (simp add: word_less_nat_alt)
  from assms(4) have ge: "unat old_size \<le> unat (memory pool) + unat (pos pool) - unat old"
    by simp
  have "unat old_size \<le> unat (memory pool) + unat (pos pool) - unat old" by (rule ge)
  with i g(2) have "unat ?g + unat i < 2 ^ 64" by (simp add: g(1))
  then have "unat (?g + i) = unat ?g + unat i" by (simp add: unat_word_ariths)
  with ge have "unat old_size \<le> unat (?g + i)" by (simp add: g(1))
  then have ng: "\<not> (?g + i < old_size)" by (simp add: word_less_nat_alt)
  have e: "memory pool + pos pool + i - old = ?g + i" by simp
  show ?thesis unfolding e by (rule ng)
qed

lemma new_block_not_old:
  assumes "buffer_ok pool" and "pool_inv pool"
    and "unat (memory pool) \<le> unat old"
    and "unat old + unat old_size \<le> unat (memory pool) + unat (pos pool)"
    and "0 \<noteq> (old_size :: size_t)"
  shows "memory pool + pos pool \<noteq> old"
proof
  assume e: "memory pool + pos pool = old"
  from assms(5) have p: "0 < old_size" by (simp add: word_neq_0_conv)
  from new_block_outside_old [OF assms(1-4) p] e p show False by simp
qed

lemma relocated_bytes:
  assumes "\<not> (new_blc + i - old < old_size)" and "i < old_size"
  shows "memset (memcpy h new_blc old old_size) old 0 old_size (new_blc + i) = h (old + i)"
    and "memset (memcpy h new_blc old old_size) old 0 old_size (old + i) = 0"
  using assms by (simp_all add: memset_def memcpy_def)

text \<open>
  C5, as stated: for a block that is not the last, reallocation fails exactly when
  \<open>ROUND_TO_ALIGN new_size\<close> exceeds \<open>end - pos\<close>.  After allocations of 100 bytes at
  \<open>p\<close> and of 50 bytes, \<open>MHD_pool_reallocate (pool, p, 100, SIZE_MAX)\<close> returns \<open>NULL\<close>
  although \<open>ROUND_TO_ALIGN SIZE_MAX = 0\<close> does not exceed the 848 free bytes: the function
  first rejects every \<open>new_size\<close> for which \<open>new_size + 2 * ALIGN_SIZE\<close> wraps.
\<close>

theorem reallocate_relocate_counterexample:
  "0 \<noteq> (100 :: size_t) \<and> pos pool5 \<noteq> ROUND_TO_ALIGN (4096 - memory pool5 + 100) \<and>
   \<not> ROUND_TO_ALIGN (- 1) > pool_end pool5 - pos pool5 \<and>
   fst (MHD_pool_reallocate pool5 heap7 4096 100 (- 1)) = NULL \<and>
   memory pool5 + pos pool5 \<noteq> NULL"
  by (simp add: pool5_eq MHD_pool_reallocate_def Let_def ROUND_TO_ALIGN_def ALIGN_SIZE_def
      NULL_def)

text \<open>
  C5, amended.  Let the pool satisfy the arena invariant and own a buffer, and let \<open>old\<close>,
  of \<open>old_size \<noteq> 0\<close> bytes, lie in the head region (from \<open>memory\<close> up to \<open>memory + pos\<close>)
  without being the last block.  The statement is about the requests that the overflow
  test rejects (\<open>new_size + 2 * ALIGN_SIZE\<close> wraps) and about those whose new block can
  hold the old bytes, \<open>old_size \<le> ROUND_TO_ALIGN new_size\<close>; a request for a smaller block
  is outside it.  Then the reallocation fails exactly when \<open>new_size + 2 * ALIGN_SIZE\<close>
  wraps or \<open>ROUND_TO_ALIGN new_size\<close> exceeds \<open>end - pos\<close>.  Otherwise it returns
  \<open>memory + pos\<close>, which is not \<open>old\<close>; \<open>pos\<close> grows by \<open>ROUND_TO_ALIGN new_size\<close>, stays
  at most \<open>end\<close>, and nothing else changes in the pool, so the old block stays below
  \<open>pos\<close>; the \<open>old_size\<close> bytes that were at \<open>old\<close> are now at the start of the new
  block, all of them inside it, and the \<open>old_size\<close> bytes at \<open>old\<close> are zero.
\<close>

theorem reallocate_relocate:
  assumes "buffer_ok pool" and "pool_inv pool"
    and "0 \<noteq> old_size" and "pos pool \<noteq> ROUND_TO_ALIGN (old - memory pool + old_size)"
    and "unat (memory pool) \<le> unat old"
    and "unat old + unat old_size \<le> unat (memory pool) + unat (pos pool)"
    and "new_size + 2 * ALIGN_SIZE < new_size \<or> old_size \<le> ROUND_TO_ALIGN new_size"
  shows "(case MHD_pool_reallocate pool h old old_size new_size of (r, pool', h') \<Rightarrow>
           (r = NULL) = (new_size + 2 * ALIGN_SIZE < new_size \<or>
                         ROUND_TO_ALIGN new_size > pool_end pool - pos pool) \<and>
           (r \<noteq> NULL \<longrightarrow>
              r = memory pool + pos pool \<and> r \<noteq> old \<and>
              pool' = pool\<lparr>pos := pos pool + ROUND_TO_ALIGN new_size\<rparr> \<and>
              unat (pos pool') = unat (pos pool) + unat (ROUND_TO_ALIGN new_size) \<and>
              unat (pos pool) + unat old_size \<le> unat (pos pool') \<and>
              pos pool' \<le> pool_end pool \<and>
              (\<forall>i. i < old_size \<longrightarrow> h' (r + i) = h (old + i) \<and> h' (old + i) = 0)))"
proof -
  let ?fail = "new_size + 2 * ALIGN_SIZE < new_size \<or>
               ROUND_TO_ALIGN new_size > pool_end pool - pos pool"
  let ?new = "memory pool + pos pool"
  have nn: "?new \<noteq> NULL" using assms(1,2) by (rule head_block_not_NULL)
  show ?thesis
  proof (cases ?fail)
    case True
    then show ?thesis by (simp add: reallocate_other [OF assms(3,4)])
  next
    case False
    from assms(2) have o: "pos pool \<le> pool_end pool" by (simp add: pool_inv_def)
    from False have nf: "\<not> ROUND_TO_ALIGN new_size > pool_end pool - pos pool" by simp
    with o have fit: "\<not> (pos pool + ROUND_TO_ALIGN new_size > pool_end pool)"
      and nw: "\<not> (pos pool + ROUND_TO_ALIGN new_size < pos pool)"
      using cap_iff [OF o, of "ROUND_TO_ALIGN new_size"] by blast+
    from fit have le: "pos pool + ROUND_TO_ALIGN new_size \<le> pool_end pool" by simp
    from nw have "pos pool \<le> pos pool + ROUND_TO_ALIGN new_size" by simp
    then have adv: "unat (pos pool + ROUND_TO_ALIGN new_size)
        = unat (pos pool) + unat (ROUND_TO_ALIGN new_size)"
      by (simp only: unat_plus_simple [THEN iffD1])
    from False assms(7) have "old_size \<le> ROUND_TO_ALIGN new_size" by blast
    then have "unat old_size \<le> unat (ROUND_TO_ALIGN new_size)" by (simp add: word_le_nat_alt)
    with adv have inside: "unat (pos pool) + unat old_size
        \<le> unat (pos pool + ROUND_TO_ALIGN new_size)"
      by simp
    have ne: "?new \<noteq> old" using assms(1,2,5,6,3) by (rule new_block_not_old)
    have bytes: "\<And>i. i < old_size \<Longrightarrow>
        memset (memcpy h ?new old old_size) old 0 old_size (?new + i) = h (old + i) \<and>
        memset (memcpy h ?new old old_size) old 0 old_size (old + i) = 0"
    proof -
      fix i assume i: "i < old_size"
      have out: "\<not> (?new + i - old < old_size)"
        using assms(1,2,5,6) i by (rule new_block_outside_old)
      from relocated_bytes [OF out i, of h] show
        "memset (memcpy h ?new old old_size) old 0 old_size (?new + i) = h (old + i) \<and>
         memset (memcpy h ?new old old_size) old 0 old_size (old + i) = 0"
        by simp
    qed
    from False nn ne adv inside le bytes show ?thesis
      by (simp add: reallocate_other [OF assms(3,4)])
  qed
qed

text \<open>
  The theorem at work after allocations of 100 bytes at \<open>p\<close>, holding \<open>abcdefghij\<close>, and
  of 50 bytes: \<open>reallocate (p, 100, 200)\<close> returns \<open>buffer + 176\<close>, moves the \<open>d\<close> there,
  clears it at \<open>p\<close> and advances \<open>pos\<close> by 208.
\<close>

theorem reallocate_relocate_witness:
  "buffer_ok pool5 \<and> pool_inv pool5 \<and> 0 \<noteq> (100 :: size_t) \<and>
   pos pool5 \<noteq> ROUND_TO_ALIGN (4096 - memory pool5 + 100) \<and>
   unat (memory pool5) \<le> unat (4096 :: ptr) \<and>
   unat (4096 :: ptr) + unat (100 :: size_t) \<le> unat (memory pool5) + unat (pos pool5) \<and>
   (100 :: size_t) \<le> ROUND_TO_ALIGN 200 \<and> (100 :: size_t) \<le> ROUND_TO_ALIGN 2000 \<and>
   fst (MHD_pool_reallocate pool5 heap7 4096 100 200) = 4096 + 176 \<and>
   fst (MHD_pool_reallocate pool5 heap7 4096 100 200) \<noteq> 4096 \<and>
   pos pool5 = 176 \<and>
   pos (fst (snd (MHD_pool_reallocate pool5 heap7 4096 100 200))) = 176 + 208 \<and>
   heap7 (4096 + 3) = of_char CHR ''d'' \<and>
   snd (snd (MHD_pool_reallocate pool5 heap7 4096 100 200)) (4096 + 176 + 3) = of_char CHR ''d'' \<and>
   snd (snd (MHD_pool_reallocate pool5 heap7 4096 100 200)) (4096 + 3) = 0 \<and>
   fst (MHD_pool_reallocate pool5 heap7 4096 100 2000) = NULL"
proof -
  have z: "0 \<noteq> (100 :: size_t)" by simp
  have m: "memory pool5 = 4096" "pos pool5 = 176" "pool_end pool5 = 1024"
    by (simp_all add: pool5_eq)
  have l: "pos pool5 \<noteq> ROUND_TO_ALIGN (4096 - memory pool5 + 100)"
    by (simp add: m ROUND_100)
  have b: "unat (memory pool5) \<le> unat (4096 :: ptr)"
    "unat (4096 :: ptr) + unat (100 :: size_t) \<le> unat (memory pool5) + unat (pos pool5)"
    by (simp_all add: m)
  have r: "ROUND_TO_ALIGN 200 = 208" "ROUND_TO_ALIGN 2000 = 2000"
    by (simp_all add: ROUND_TO_ALIGN_def ALIGN_SIZE_def)
  have g: "\<not> (200 + 2 * ALIGN_SIZE < (200 :: size_t))" "\<not> (2000 + 2 * ALIGN_SIZE < (2000 :: size_t))"
    by (simp_all add: ALIGN_SIZE_def)
  have w: "(100 :: size_t) \<le> ROUND_TO_ALIGN 200" "(100 :: size_t) \<le> ROUND_TO_ALIGN 2000"
    by (simp_all add: r)
  have h: "heap7 (4096 + 3) = of_char CHR ''d''"
    by (simp add: heap7_def write_bytes_def pool0_def MHD_pool_allocate_def Let_def ROUND_100)
  note t = reallocate_relocate [OF pool5_ok pool5_inv z l b disjI2 [OF w(1)], where h = heap7]
  from t have nn: "fst (MHD_pool_reallocate pool5 heap7 4096 100 200) \<noteq> NULL"
    by (simp add: split_def m r g)
  from t nn have e: "fst (MHD_pool_reallocate pool5 heap7 4096 100 200) = 4096 + 176"
    "fst (MHD_pool_reallocate pool5 heap7 4096 100 200) \<noteq> 4096"
    "fst (snd (MHD_pool_reallocate pool5 heap7 4096 100 200)) = pool5\<lparr>pos := 176 + 208\<rparr>"
    "\<forall>i. i < 100 \<longrightarrow>
       snd (snd (MHD_pool_reallocate pool5 heap7 4096 100 200))
         (fst (MHD_pool_reallocate pool5 heap7 4096 100 200) + i) = heap7 (4096 + i) \<and>
       snd (snd (MHD_pool_reallocate pool5 heap7 4096 100 200)) (4096 + i) = 0"
    by (auto simp add: split_def m r g)
  from e(4) [rule_format, of 3] e(1) h
  have a: "snd (snd (MHD_pool_reallocate pool5 heap7 4096 100 200)) (4096 + 176 + 3)
       = of_char CHR ''d'' \<and>
     snd (snd (MHD_pool_reallocate pool5 heap7 4096 100 200)) (4096 + 3) = 0"
    by simp
  from reallocate_relocate [OF pool5_ok pool5_inv z l b disjI2 [OF w(2)], where h = heap7]
  have f: "fst (MHD_pool_reallocate pool5 heap7 4096 100 2000) = NULL"
    by (simp add: split_def m r g)
  from pool5_ok pool5_inv z l b w e(1,2,3) m(2) h a f show ?thesis by simp
qed

section \<open>A block allocated from the end\<close>

lemma tail9_alloc:
  "MHD_pool_allocate pool0 800 True =
     (4096 + 224, \<lparr>memory = 4096, pool_size = 1024, pos = 0, pool_end = 224, is_mmap = False\<rparr>)"
  by (simp add: pool0_def MHD_pool_allocate_def Let_def ROUND_TO_ALIGN_def ALIGN_SIZE_def)

lemma pool9a_eq:
  "pool9a = \<lparr>memory = 4096, pool_size = 1024, pos = 0, pool_end = 224, is_mmap = False\<rparr>"
  by (simp add: pool9a_def tail9_alloc)

lemma p9_alloc:
  "MHD_pool_allocate pool9a 100 False =
     (4096, \<lparr>memory = 4096, pool_size = 1024, pos = 112, pool_end = 224, is_mmap = False\<rparr>)"
  by (simp add: pool9a_eq MHD_pool_allocate_def Let_def ROUND_100)

lemma pool9b_eq:
  "pool9b = \<lparr>memory = 4096, pool_size = 1024, pos = 112, pool_end = 224, is_mmap = False\<rparr>"
  by (simp add: pool9b_def p9_alloc)

lemma q9_alloc:
  "MHD_pool_allocate pool9b 50 False =
     (4096 + 112, \<lparr>memory = 4096, pool_size = 1024, pos = 176, pool_end = 224, is_mmap = False\<rparr>)"
  by (simp add: pool9b_eq MHD_pool_allocate_def Let_def ROUND_TO_ALIGN_def ALIGN_SIZE_def)

text \<open>
  C9.  The claim is that a block allocated from the end keeps its bytes through every
  sequence of successful allocations and reallocations at the head.  On its slow path
  \<open>MHD_pool_reallocate\<close> reserves \<open>ROUND_TO_ALIGN new_size\<close> bytes and then copies
  \<open>old_size\<close> bytes into them.  With 800 bytes allocated from the end (at offset 224), then
  \<open>p9\<close> and \<open>q9\<close> from the head, \<open>MHD_pool_reallocate (pool, p9, 100, 10)\<close> succeeds,
  reserves the 16 bytes at offset 176 and copies 100 bytes there: the first byte of the
  block at the end, which held 170, now holds the 85 of \<open>p9\<close>.
\<close>

theorem tail_block_overwritten:
  "tail9 = 4096 + 224 \<and> p9 = 4096 \<and> q9 = 4096 + 112 \<and>
   fst (MHD_pool_reallocate pool9c heap9b p9 100 10) = 4096 + 176 \<and>
   fst (MHD_pool_reallocate pool9c heap9b p9 100 10) \<noteq> NULL \<and>
   pos (fst (snd (MHD_pool_reallocate pool9c heap9b p9 100 10))) = 192 \<and>
   pool_end (fst (snd (MHD_pool_reallocate pool9c heap9b p9 100 10))) = 224 \<and>
   heap9b tail9 = 170 \<and>
   snd (snd (MHD_pool_reallocate pool9c heap9b p9 100 10)) tail9 = 85"
proof -
  have t: "tail9 = 4096 + 224" by (simp add: tail9_def tail9_alloc)
  have p: "p9 = 4096" by (simp add: p9_def p9_alloc)
  have q: "q9 = 4096 + 112" by (simp add: q9_def q9_alloc)
  have c: "pool9c =
      \<lparr>memory = 4096, pool_size = 1024, pos = 176, pool_end = 224, is_mmap = False\<rparr>"
    by (simp add: pool9c_def q9_alloc)
  have r: "MHD_pool_reallocate
        \<lparr>memory = 4096, pool_size = 1024, pos = 176, pool_end = 224, is_mmap = False\<rparr>
        heap9b 4096 100 10 =
      (4272, \<lparr>memory = 4096, pool_size = 1024, pos = 192, pool_end = 224, is_mmap = False\<rparr>,
       memset (memcpy heap9b 4272 4096 100) 4096 0 100)"
    by (simp add: MHD_pool_reallocate_def Let_def ROUND_TO_ALIGN_def ALIGN_SIZE_def)
  have 1: "fst (MHD_pool_reallocate pool9c heap9b p9 100 10) = 4096 + 176"
    and 2: "fst (MHD_pool_reallocate pool9c heap9b p9 100 10) \<noteq> NULL"
    and 3: "pos (fst (snd (MHD_pool_reallocate pool9c heap9b p9 100 10))) = 192"
    and 4: "pool_end (fst (snd (MHD_pool_reallocate pool9c heap9b p9 100 10))) = 224"
    by (simp_all add: p r c NULL_def)
  have 5: "heap9b tail9 = 170"
    by (simp add: heap9b_def heap9a_def memset_def t p)
  have "snd (snd (MHD_pool_reallocate pool9c heap9b p9 100 10)) tail9
      = memset (memcpy heap9b 4272 4096 100) 4096 0 100 4320"
    by (simp add: p c r t)
  also have "\<dots> = heap9b 4144"
    by (simp add: memset_def memcpy_def)
  also have "\<dots> = 85"
    by (simp add: heap9b_def memset_def p)
  finally have 6: "snd (snd (MHD_pool_reallocate pool9c heap9b p9 100 10)) tail9 = 85" .
  show ?thesis by (intro conjI t p q 1 2 3 4 5 6)
qed

end
